theory Spec2Isabelle
  imports Main "HOL-Library.Sublist"
begin

section \<open>Data model\<close>

text \<open>
  The three Mongoose collections of the backend, each as a list of documents in insertion
  order (the order in which \<^verbatim>\<open>findOne\<close> sees them). An ObjectId is a natural number taken
  from a supply kept with the collections. The timestamps (\<^verbatim>\<open>creadoEn\<close>,
  \<^verbatim>\<open>actualizadoEn\<close>) and the TTL indexes built on them depend on the wall clock and are
  left out.
\<close>

type_synonym objectId = nat

datatype rol = RolUsuario | RolAdmin

text \<open>\<^verbatim>\<open>usuario.modelo.ts\<close>: interface IUsuario.\<close>

record usuario =
  u_id :: objectId
  telefono :: string
  estaVerificado :: bool
  rol :: rol

text \<open>\<^verbatim>\<open>codigoVerificacion.modelo.ts\<close>: interface ICodigoVerificacion.\<close>

record codigoVerificacion =
  cv_id :: objectId
  cv_telefono :: string
  cv_codigo :: string

text \<open>\<^verbatim>\<open>refreshToken.modelo.ts\<close>: interface IRefreshToken.\<close>

record refreshToken =
  rt_id :: objectId
  token :: string
  usuarioId :: objectId

record bd =
  usuarios :: "usuario list"
  codigos :: "codigoVerificacion list"
  refreshTokens :: "refreshToken list"
  proximoId :: objectId

text \<open>\<^verbatim>\<open>generarToken.ts\<close>: interface PayloadJWT.\<close>

record payloadJWT =
  p_usuarioId :: objectId
  p_telefono :: string

text \<open>
  \<^verbatim>\<open>config/variables.ts\<close>: the validated environment, together with the two functions of
  the jsonwebtoken library that are closed over \<^verbatim>\<open>JWT_SECRET\<close> and
  \<^verbatim>\<open>JWT_EXPIRATION\<close>. \<^verbatim>\<open>jwt_sign\<close> always returns a token: the configured expiry is
  taken to be one the library accepts. \<^verbatim>\<open>jwt_verify\<close> gives \<open>None\<close> where the
  library throws (malformed token, wrong signature, expired), and also for a payload
  whose \<^verbatim>\<open>usuarioId\<close> is not an ObjectId, since the cast in \<^verbatim>\<open>findById\<close> then throws
  into the same \<^verbatim>\<open>catch\<close>.
\<close>

record entorno =
  CODIGO_MAESTRO :: string
  TELEFONO_ADMIN :: string
  jwt_sign :: "payloadJWT \<Rightarrow> string"
  jwt_verify :: "string \<Rightarrow> payloadJWT option"

section \<open>Standard responses (respuestaEstandarizada.ts)\<close>

text \<open>
  The payloads: \<^verbatim>\<open>null\<close>; \<^verbatim>\<open>{token, refreshToken, usuario: {id, telefono}}\<close>;
  \<^verbatim>\<open>{token, refreshToken}\<close>; \<^verbatim>\<open>{token, refreshToken, usuario: {id, telefono, rol}}\<close>.
\<close>

datatype datos =
    DatosNull
  | DatosLogin string string objectId string
  | DatosRefresh string string
  | DatosMaestro string string objectId string rol

record errorDetalle =
  campo :: string
  ed_mensaje :: string

text \<open>
  An HTTP response: the status and the JSON body. A key of the body that is absent is
  \<open>None\<close>; \<^verbatim>\<open>datos: null\<close> is \<open>Some DatosNull\<close>. Message texts are written in
  ASCII, without their accents.
\<close>

record respuesta =
  status :: nat
  exito :: bool
  mensaje :: string
  datos :: "datos option"
  codigo :: "string option"
  errores :: "errorDetalle list option"

definition enviarRespuestaExitosa :: "string \<Rightarrow> datos \<Rightarrow> nat option \<Rightarrow> respuesta" where
  "enviarRespuestaExitosa msj dat statusCode =
     \<lparr>status = (case statusCode of None \<Rightarrow> 200 | Some s \<Rightarrow> s),
      exito = True, mensaje = msj, datos = Some dat, codigo = None, errores = None\<rparr>"

definition enviarRespuestaError ::
    "string \<Rightarrow> string \<Rightarrow> errorDetalle list option \<Rightarrow> nat option \<Rightarrow> respuesta" where
  "enviarRespuestaError msj cod errs statusCode =
     \<lparr>status = (case statusCode of None \<Rightarrow> 400 | Some s \<Rightarrow> s),
      exito = False, mensaje = msj, datos = None, codigo = Some cod, errores = errs\<rparr>"

section \<open>Mongoose primitives\<close>

text \<open>
  The schema setters \<^verbatim>\<open>trim: true\<close> and \<^verbatim>\<open>lowercase: true\<close>. Mongoose runs them when
  a document is built or updated and when a query filter is cast. A \<^typ>\<open>char\<close> is a
  code unit from U+0000 to U+00FF; a string with a code unit above U+00FF is not a value
  of \<^typ>\<open>string\<close>. Of these code units \<^verbatim>\<open>String.prototype.trim\<close> strips the six
  ASCII blanks and U+00A0, and \<^verbatim>\<open>toLowerCase\<close> changes A to Z and U+00C0 to U+00DE
  but for U+00D7.
\<close>

definition esEspacio :: "char \<Rightarrow> bool" where
  "esEspacio c =
     (c \<in> set [CHR 0x09, CHR 0x0A, CHR 0x0B, CHR 0x0C, CHR 0x0D, CHR 0x20, CHR 0xA0])"

definition recortar :: "string \<Rightarrow> string" where
  "recortar s = rev (dropWhile esEspacio (rev (dropWhile esEspacio s)))"

definition minuscula :: "char \<Rightarrow> char" where
  "minuscula c =
     (let n = (of_char c :: nat)
      in if (65 \<le> n \<and> n \<le> 90) \<or> (192 \<le> n \<and> n \<le> 222 \<and> n \<noteq> 215)
         then char_of (n + 32) else c)"

definition normalizarTelefono :: "string \<Rightarrow> string" where
  "normalizarTelefono s = map minuscula (recortar s)"

text \<open>
  The database is taken to answer every call. What a call can still throw is what the
  schemas declare: \<^verbatim>\<open>required\<close> and \<^verbatim>\<open>unique\<close>.
\<close>

text \<open>\<^verbatim>\<open>Model.findOne(filter)\<close>: the first document the filter accepts.\<close>

abbreviation findOne :: "('a \<Rightarrow> bool) \<Rightarrow> 'a list \<Rightarrow> 'a option" where
  "findOne \<equiv> find"

text \<open>\<^verbatim>\<open>Model.deleteOne(filter)\<close>: removes the first document the filter accepts.\<close>

fun deleteOne :: "('a \<Rightarrow> bool) \<Rightarrow> 'a list \<Rightarrow> 'a list" where
  "deleteOne P [] = []"
| "deleteOne P (x # xs) = (if P x then xs else x # deleteOne P xs)"

text \<open>The update half of \<^verbatim>\<open>findOneAndUpdate\<close>: rewrites the first document the filter accepts.\<close>

fun updateOne :: "('a \<Rightarrow> bool) \<Rightarrow> ('a \<Rightarrow> 'a) \<Rightarrow> 'a list \<Rightarrow> 'a list" where
  "updateOne P f [] = []"
| "updateOne P f (x # xs) = (if P x then f x # xs else x # updateOne P f xs)"

text \<open>
  \<^verbatim>\<open>CodigoVerificacion.findOneAndUpdate({telefono}, {telefono, codigo, creadoEn},
  {upsert: true, new: true})\<close>. The collection has no unique index; update validators are
  off by default.
\<close>

definition upsertCodigo :: "string \<Rightarrow> string \<Rightarrow> bd \<Rightarrow> bd" where
  "upsertCodigo tel cod b =
     (let t = normalizarTelefono tel; c = recortar cod in
      case findOne (\<lambda>d. cv_telefono d = t) (codigos b) of
        Some d \<Rightarrow>
          b\<lparr>codigos := updateOne (\<lambda>d. cv_telefono d = t)
                         (\<lambda>d. d\<lparr>cv_telefono := t, cv_codigo := c\<rparr>) (codigos b)\<rparr>
      | None \<Rightarrow>
          b\<lparr>codigos := codigos b @ [\<lparr>cv_id = proximoId b, cv_telefono = t, cv_codigo = c\<rparr>],
            proximoId := Suc (proximoId b)\<rparr>)"

text \<open>
  \<^verbatim>\<open>new Usuario({telefono, rol}); await usuario.save()\<close>. The save throws (\<open>None\<close>) when
  the phone is empty after the setters (\<^verbatim>\<open>required\<close>) or already stored
  (\<^verbatim>\<open>unique: true\<close>).
\<close>

definition guardarUsuario :: "string \<Rightarrow> rol \<Rightarrow> bd \<Rightarrow> (usuario \<times> bd) option" where
  "guardarUsuario tel r b =
     (let t = normalizarTelefono tel in
      if t = [] \<or> t \<in> set (map telefono (usuarios b)) then None
      else
        (let u = \<lparr>u_id = proximoId b, telefono = t, estaVerificado = False, rol = r\<rparr>
         in Some (u, b\<lparr>usuarios := usuarios b @ [u], proximoId := Suc (proximoId b)\<rparr>)))"

text \<open>
  \<^verbatim>\<open>RefreshToken.create({token, usuarioId})\<close>. It throws (\<open>None\<close>) when the token is empty
  (\<^verbatim>\<open>required\<close>) or already stored (\<^verbatim>\<open>unique: true\<close>).
\<close>

definition crearRefreshToken :: "string \<Rightarrow> objectId \<Rightarrow> bd \<Rightarrow> bd option" where
  "crearRefreshToken tk uid b =
     (if tk = [] \<or> tk \<in> set (map token (refreshTokens b)) then None
      else Some (b\<lparr>refreshTokens :=
                     refreshTokens b @ [\<lparr>rt_id = proximoId b, token = tk, usuarioId = uid\<rparr>],
                   proximoId := Suc (proximoId b)\<rparr>))"

section \<open>Authentication controllers (autenticacion.controlador.ts)\<close>

text \<open>
  Each controller is a function of the request body's fields and of the collections; it
  returns the response it sends and the collections it leaves. What the controller draws
  from a random source (\<^verbatim>\<open>generarCodigo()\<close>, \<^verbatim>\<open>generarRefreshToken()\<close>) is an
  argument, named as the source names the variable that holds it. An exception thrown
  inside the \<^verbatim>\<open>try\<close> block is the branch that sends the \<^verbatim>\<open>catch\<close> block's response.
\<close>

text \<open>
  \<^verbatim>\<open>generarRefreshToken()\<close> of \<^verbatim>\<open>generarToken.ts\<close>:
  \<^verbatim>\<open>crypto.randomBytes(40).toString("hex")\<close>, as a function of the bytes drawn.
\<close>

definition hexDigito :: "nat \<Rightarrow> char" where
  "hexDigito n = ''0123456789abcdef'' ! (n mod 16)"

definition generarRefreshToken :: "nat list \<Rightarrow> string" where
  "generarRefreshToken bytes =
     concat (map (\<lambda>x. [hexDigito ((x mod 256) div 16), hexDigito (x mod 16)]) bytes)"

text \<open>
  One call of \<^verbatim>\<open>enviarSMS\<close>, with the collections as they were when the call was made.
\<close>

record intentoSMS =
  destinatario :: string
  cuerpo :: string
  almacen :: bd

definition mensajeSMS :: "string \<Rightarrow> string" where
  "mensajeSMS cod = ''Tu codigo de verificacion es: '' @ cod"

text \<open>
  \<^verbatim>\<open>enviarSMS(destinatario, mensaje)\<close> in a world made of the collections and the log of
  the calls so far. \<open>smsOk\<close> tells whether the provider accepts the message; when it does
  not, \<^verbatim>\<open>enviarSMS\<close> throws.
\<close>

definition enviarSMS ::
    "bool \<Rightarrow> string \<Rightarrow> string \<Rightarrow> bd \<times> intentoSMS list \<Rightarrow> bool \<times> bd \<times> intentoSMS list" where
  "enviarSMS smsOk dest msj w =
     (smsOk, fst w, snd w @ [\<lparr>destinatario = dest, cuerpo = msj, almacen = fst w\<rparr>])"

definition registrarUsuario ::
    "string \<Rightarrow> bool \<Rightarrow> string \<Rightarrow> bd \<Rightarrow> respuesta \<times> bd \<times> intentoSMS list" where
  "registrarUsuario codigoGenerado smsOk tel b =
     (let w1 = (upsertCodigo tel codigoGenerado b, []);
          (enviado, w2) = enviarSMS smsOk tel (mensajeSMS codigoGenerado) w1
      in if enviado
         then (enviarRespuestaExitosa ''Codigo enviado correctamente'' DatosNull None, w2)
         else (enviarRespuestaError ''Error interno del servidor''
                 ''ERROR_REGISTRO_USUARIO'' None None, w2))"

definition verificarUsuario :: "string \<Rightarrow> string \<Rightarrow> bd \<Rightarrow> respuesta \<times> bd" where
  "verificarUsuario tel cod b =
     (case findOne (\<lambda>d. cv_telefono d = normalizarTelefono tel \<and> cv_codigo d = recortar cod)
             (codigos b) of
        None \<Rightarrow>
          (enviarRespuestaError ''Codigo incorrecto o expirado''
             ''CODIGO_INVALIDO_O_EXPIRADO'' None None, b)
      | Some codigoEncontrado \<Rightarrow>
          (enviarRespuestaExitosa ''Codigo verificado correctamente'' DatosNull None,
           b\<lparr>codigos := deleteOne (\<lambda>d. cv_id d = cv_id codigoEncontrado) (codigos b)\<rparr>))"

definition loginUsuario :: "entorno \<Rightarrow> string \<Rightarrow> string \<Rightarrow> string \<Rightarrow> bd \<Rightarrow> respuesta \<times> bd" where
  "loginUsuario ent refreshTokenString tel cod b =
     (case findOne (\<lambda>d. cv_telefono d = normalizarTelefono tel) (codigos b) of
        None \<Rightarrow>
          (enviarRespuestaError ''Codigo invalido o expirado'' ''CODIGO_INVALIDO'' None None, b)
      | Some codigoDoc \<Rightarrow>
          if cv_codigo codigoDoc \<noteq> cod
          then (enviarRespuestaError ''Codigo invalido o expirado'' ''CODIGO_INVALIDO''
                  None None, b)
          else
            (case (case findOne (\<lambda>u. telefono u = normalizarTelefono tel) (usuarios b) of
                     Some u \<Rightarrow> Some (u, b)
                   | None \<Rightarrow> guardarUsuario tel RolUsuario b) of
               None \<Rightarrow>
                 (enviarRespuestaError ''Error interno del servidor'' ''ERROR_LOGIN''
                    None None, b)
             | Some (usr, b1) \<Rightarrow>
                 (case crearRefreshToken refreshTokenString (u_id usr) b1 of
                    None \<Rightarrow>
                      (enviarRespuestaError ''Error interno del servidor'' ''ERROR_LOGIN''
                         None None, b1)
                  | Some b2 \<Rightarrow>
                      (enviarRespuestaExitosa ''Login exitoso''
                         (DatosLogin
                            (jwt_sign ent \<lparr>p_usuarioId = u_id usr, p_telefono = telefono usr\<rparr>)
                            refreshTokenString (u_id usr) (telefono usr)) None,
                       b2\<lparr>codigos :=
                            deleteOne (\<lambda>d. cv_telefono d = normalizarTelefono tel)
                              (codigos b2)\<rparr>))))"

definition refrescarToken :: "entorno \<Rightarrow> string \<Rightarrow> string \<Rightarrow> bd \<Rightarrow> respuesta \<times> bd" where
  "refrescarToken ent nuevoRefreshToken refreshTk b =
     (case findOne (\<lambda>d. token d = refreshTk) (refreshTokens b) of
        None \<Rightarrow>
          (enviarRespuestaError ''Refresh token invalido o caducado''
             ''REFRESH_TOKEN_INVALIDO'' None None, b)
      | Some tokenEnBD \<Rightarrow>
          (case findOne (\<lambda>u. u_id u = usuarioId tokenEnBD) (usuarios b) of
             None \<Rightarrow>
               (enviarRespuestaError ''Usuario no encontrado'' ''USUARIO_NO_EXISTE''
                  None None, b)
           | Some usr \<Rightarrow>
               (let b1 = b\<lparr>refreshTokens :=
                            deleteOne (\<lambda>d. rt_id d = rt_id tokenEnBD) (refreshTokens b)\<rparr>
                in case crearRefreshToken nuevoRefreshToken (u_id usr) b1 of
                     None \<Rightarrow>
                       (enviarRespuestaError ''Error al procesar el refresh token''
                          ''ERROR_REFRESH_TOKEN'' None None, b1)
                   | Some b2 \<Rightarrow>
                       (enviarRespuestaExitosa ''Token renovado correctamente''
                          (DatosRefresh
                             (jwt_sign ent
                                \<lparr>p_usuarioId = u_id usr, p_telefono = telefono usr\<rparr>)
                             nuevoRefreshToken) None,
                        b2))))"

section \<open>Master access (accesoMaestro.controlador.ts)\<close>

definition accesoMaestro :: "entorno \<Rightarrow> string \<Rightarrow> string \<Rightarrow> bd \<Rightarrow> respuesta \<times> bd" where
  "accesoMaestro ent refreshTk cod b =
     (if cod \<noteq> CODIGO_MAESTRO ent
      then (enviarRespuestaError ''Codigo incorrecto'' ''CODIGO_MAESTRO_INVALIDO''
              None (Some 401), b)
      else
        (case (case findOne (\<lambda>u. telefono u = normalizarTelefono (TELEFONO_ADMIN ent))
                      (usuarios b) of
                 Some u \<Rightarrow> Some (u, b)
               | None \<Rightarrow> guardarUsuario (TELEFONO_ADMIN ent) RolAdmin b) of
           None \<Rightarrow>
             (enviarRespuestaError ''Error interno del servidor'' ''ERROR_ACCESO_MAESTRO''
                None None, b)
         | Some (usr, b1) \<Rightarrow>
             (case crearRefreshToken refreshTk (u_id usr) b1 of
                None \<Rightarrow>
                  (enviarRespuestaError ''Error interno del servidor''
                     ''ERROR_ACCESO_MAESTRO'' None None, b1)
              | Some b2 \<Rightarrow>
                  (enviarRespuestaExitosa ''Acceso maestro exitoso''
                     (DatosMaestro
                        (jwt_sign ent \<lparr>p_usuarioId = u_id usr, p_telefono = telefono usr\<rparr>)
                        refreshTk (u_id usr) (telefono usr) (rol usr)) None,
                   b2))))"

section \<open>Request validation (autenticacion.validacion.ts)\<close>

definition esDigito :: "char \<Rightarrow> bool" where
  "esDigito c = (let n = (of_char c :: nat) in 48 \<le> n \<and> n \<le> 57)"

text \<open>\<^verbatim>\<open>telefonoRegex = /^\+[1-9]\d{9,14}$/\<close>.\<close>

definition telefonoRegex :: "string \<Rightarrow> bool" where
  "telefonoRegex s =
     (case s of
        c0 # c1 # resto \<Rightarrow>
          c0 = CHR ''+'' \<and> esDigito c1 \<and> c1 \<noteq> CHR ''0'' \<and>
          9 \<le> length resto \<and> length resto \<le> 14 \<and> list_all esDigito resto
      | _ \<Rightarrow> False)"

text \<open>
  The \<^verbatim>\<open>telefono\<close> rule shared by \<^verbatim>\<open>registroSchema\<close>, \<^verbatim>\<open>verificacionSchema\<close> and
  \<^verbatim>\<open>loginSchema\<close>: \<^verbatim>\<open>z.string().trim().regex(telefonoRegex)\<close>.
\<close>

definition telefonoValido :: "string \<Rightarrow> bool" where
  "telefonoValido tel = telefonoRegex (recortar tel)"

section \<open>Access guard (auth.middleware.ts, esAdmin.middleware.ts, admin.ruta.ts)\<close>

text \<open>
  What the middlewares read and write of the Express request: the \<^verbatim>\<open>Authorization\<close>
  header and the \<^verbatim>\<open>usuario\<close> property.
\<close>

record peticion =
  authorization :: "string option"
  req_usuario :: "usuario option"

text \<open>\<^verbatim>\<open>String.prototype.split\<close> with a separator of one character.\<close>

fun split :: "char \<Rightarrow> string \<Rightarrow> string list" where
  "split sep [] = [[]]"
| "split sep (c # cs) =
     (if c = sep then [] # split sep cs
      else (case split sep cs of [] \<Rightarrow> [[c]] | w # ws \<Rightarrow> (c # w) # ws))"

text \<open>\<^verbatim>\<open>authHeader.split(' ')[1]\<close>; \<open>None\<close> is \<^verbatim>\<open>undefined\<close>.\<close>

definition extraerToken :: "string \<Rightarrow> string option" where
  "extraerToken authHeader =
     (case split CHR '' '' authHeader of _ # t # _ \<Rightarrow> Some t | _ \<Rightarrow> None)"

text \<open>
  A middleware either sends a response (\<open>Inl\<close>) or calls \<^verbatim>\<open>next()\<close> with the request
  (\<open>Inr\<close>). Whatever \<^verbatim>\<open>jwt.verify\<close> throws is caught and answered with
  \<^verbatim>\<open>TOKEN_INVALIDO\<close>.
\<close>

definition autenticarJWT :: "entorno \<Rightarrow> bd \<Rightarrow> peticion \<Rightarrow> respuesta + peticion" where
  "autenticarJWT ent b req =
     (case authorization req of
        None \<Rightarrow>
          Inl (enviarRespuestaError ''Token no proporcionado'' ''TOKEN_FALTANTE'' None (Some 401))
      | Some authHeader \<Rightarrow>
          if authHeader = [] \<or> \<not> prefix ''Bearer '' authHeader
          then Inl (enviarRespuestaError ''Token no proporcionado'' ''TOKEN_FALTANTE''
                      None (Some 401))
          else
            (case Option.bind (extraerToken authHeader) (jwt_verify ent) of
               None \<Rightarrow>
                 Inl (enviarRespuestaError ''Token invalido o expirado'' ''TOKEN_INVALIDO''
                        None (Some 401))
             | Some payload \<Rightarrow>
                 (case findOne (\<lambda>u. u_id u = p_usuarioId payload) (usuarios b) of
                    None \<Rightarrow>
                      Inl (enviarRespuestaError ''Usuario no encontrado'' ''USUARIO_INVALIDO''
                             None (Some 401))
                  | Some usr \<Rightarrow> Inr (req\<lparr>req_usuario := Some usr\<rparr>))))"

definition esAdmin :: "peticion \<Rightarrow> respuesta + peticion" where
  "esAdmin req =
     (case req_usuario req of
        None \<Rightarrow>
          Inl (enviarRespuestaError ''Usuario no autenticado'' ''USUARIO_NO_AUTENTICADO''
                 None (Some 401))
      | Some usr \<Rightarrow>
          if rol usr \<noteq> RolAdmin
          then Inl (enviarRespuestaError ''Acceso restringido a administradores''
                      ''ACCESO_NO_AUTORIZADO'' None (Some 403))
          else Inr req)"

text \<open>The handler of \<^verbatim>\<open>GET /api/admin/test\<close>.\<close>

definition adminTest :: respuesta where
  "adminTest =
     \<lparr>status = 200, exito = True, mensaje = ''Acceso autorizado. Sos un administrador!'',
      datos = Some DatosNull, codigo = None, errores = None\<rparr>"

text \<open>\<^verbatim>\<open>router.get('/test', autenticarJWT, esAdmin, handler)\<close>.\<close>

definition rutaAdminTest :: "entorno \<Rightarrow> bd \<Rightarrow> peticion \<Rightarrow> respuesta" where
  "rutaAdminTest ent b req =
     (case autenticarJWT ent b req of
        Inl r \<Rightarrow> r
      | Inr req1 \<Rightarrow> (case esAdmin req1 of Inl r \<Rightarrow> r | Inr req2 \<Rightarrow> adminTest))"

section \<open>Application-level handlers (app.ts)\<close>

text \<open>The middleware for routes that no router matched.\<close>

definition rutaNoEncontrada :: respuesta where
  "rutaNoEncontrada =
     \<lparr>status = 404, exito = False, mensaje = ''Ruta no encontrada'',
      datos = Some DatosNull, codigo = None, errores = None\<rparr>"

text \<open>
  The global error middleware, on the two properties of \<^verbatim>\<open>err\<close> that it reads.
  \<^verbatim>\<open>err.status || 500\<close> and \<^verbatim>\<open>err.message || '...'\<close> take the default for a missing
  property and for \<^verbatim>\<open>0\<close> and the empty string.
\<close>

record errorExpress =
  err_status :: "nat option"
  err_message :: "string option"

definition manejadorErrores :: "errorExpress \<Rightarrow> respuesta" where
  "manejadorErrores err =
     \<lparr>status = (case err_status err of None \<Rightarrow> 500 | Some s \<Rightarrow> if s = 0 then 500 else s),
      exito = False,
      mensaje = (case err_message err of
                   None \<Rightarrow> ''Error interno del servidor''
                 | Some m \<Rightarrow> if m = [] then ''Error interno del servidor'' else m),
      datos = Some DatosNull, codigo = None, errores = None\<rparr>"

section \<open>Well-formed collections, repeated calls, readers of the payload\<close>

text \<open>
  What holds of the collections in every state that the controllers reach one request
  after the other from empty collections: ObjectIds are distinct and come from the
  supply, the unique indexes (\<^verbatim>\<open>telefono\<close> of a user, \<^verbatim>\<open>token\<close> of a refresh token) hold,
  and the upsert of \<^verbatim>\<open>registrarUsuario\<close> keeps one verification code for a phone.
\<close>

definition bd_valida :: "bd \<Rightarrow> bool" where
  "bd_valida b =
     (distinct (map u_id (usuarios b)) \<and> distinct (map telefono (usuarios b)) \<and>
      distinct (map cv_id (codigos b)) \<and> distinct (map cv_telefono (codigos b)) \<and>
      distinct (map rt_id (refreshTokens b)) \<and> distinct (map token (refreshTokens b)) \<and>
      list_all (\<lambda>u. u_id u < proximoId b) (usuarios b) \<and>
      list_all (\<lambda>d. cv_id d < proximoId b) (codigos b) \<and>
      list_all (\<lambda>d. rt_id d < proximoId b) (refreshTokens b))"

definition bd_vacia :: bd where
  "bd_vacia = \<lparr>usuarios = [], codigos = [], refreshTokens = [], proximoId = 0\<rparr>"


text \<open>The fields \<^verbatim>\<open>usuario.id\<close>, \<^verbatim>\<open>usuario.rol\<close> and \<^verbatim>\<open>refreshToken\<close> of a payload.\<close>

fun datos_usuario_id :: "datos \<Rightarrow> objectId option" where
  "datos_usuario_id (DatosLogin tk rt i tel) = Some i"
| "datos_usuario_id (DatosMaestro tk rt i tel r) = Some i"
| "datos_usuario_id _ = None"




section \<open>A concrete deployment\<close>

definition entEjemplo :: entorno where
  "entEjemplo =
     \<lparr>CODIGO_MAESTRO = ''clave-maestra'', TELEFONO_ADMIN = ''+34600000000'',
      jwt_sign = (\<lambda>p. ''jwt.'' @ p_telefono p),
      jwt_verify =
        (\<lambda>s. if s = ''jwt.+34600000000''
              then Some \<lparr>p_usuarioId = 0, p_telefono = ''+34600000000''\<rparr>
              else if s = ''jwt.+34600111222''
              then Some \<lparr>p_usuarioId = 1, p_telefono = ''+34600111222''\<rparr>
              else if s = ''jwt.+34600999999''
              then Some \<lparr>p_usuarioId = 9, p_telefono = ''+34600999999''\<rparr>
              else None)\<rparr>"

definition bdEjemplo :: bd where
  "bdEjemplo =
     \<lparr>usuarios =
        [\<lparr>u_id = 0, telefono = ''+34600000000'', estaVerificado = False, rol = RolAdmin\<rparr>,
         \<lparr>u_id = 1, telefono = ''+34600111222'', estaVerificado = False, rol = RolUsuario\<rparr>],
      codigos = [\<lparr>cv_id = 2, cv_telefono = ''+34600111222'', cv_codigo = ''482913''\<rparr>],
      refreshTokens = [\<lparr>rt_id = 3, token = ''aaaa'', usuarioId = 1\<rparr>],
      proximoId = 4\<rparr>"


text \<open>
  Forty bytes that \<^verbatim>\<open>crypto.randomBytes(40)\<close> can return, twice over, and collections
  that hold the refresh token made of the first forty for the second user.
\<close>

definition bytesSorteados :: "nat list" where
  "bytesSorteados = replicate 40 171"



section \<open>Facts about the primitives\<close>

lemma find_Some_mem: "find P xs = Some x \<Longrightarrow> x \<in> set xs \<and> P x"
  by (induction xs) (auto split: if_splits)

lemma find_None_map: "findOne (\<lambda>x. f x = k) xs = None \<Longrightarrow> k \<notin> set (map f xs)"
  by (induction xs) (auto split: if_splits)

lemma find_None_key: "k \<notin> set (map f xs) \<Longrightarrow> findOne (\<lambda>x. f x = k) xs = None"
  by (induction xs) auto

lemma find_Some_key: "k \<in> set (map f xs) \<Longrightarrow> \<exists>x. findOne (\<lambda>x. f x = k) xs = Some x"
  by (induction xs) auto

lemma find_conj: "find P xs = Some d \<Longrightarrow> Q d \<Longrightarrow> findOne (\<lambda>x. P x \<and> Q x) xs = Some d"
  by (induction xs) (auto split: if_splits)

lemma find_None_notin: "k \<notin> set (map f xs) \<Longrightarrow> findOne (\<lambda>x. f x = k \<and> Q x) xs = None"
  by (induction xs) auto

lemma find_append_None: "find P xs = None \<Longrightarrow> find P (xs @ ys) = find P ys"
  by (induction xs) (auto split: if_splits)

lemma set_deleteOne: "set (deleteOne P xs) \<subseteq> set xs"
  by (induction xs) auto

lemma distinct_map_deleteOne: "distinct (map f xs) \<Longrightarrow> distinct (map f (deleteOne P xs))"
proof (induction xs)
  case Nil
  then show ?case by simp
next
  case (Cons x xs)
  then show ?case using set_deleteOne [of P xs] by auto
qed

lemma deleteOne_remove1:
  "d \<in> set xs \<Longrightarrow> distinct (map f xs) \<Longrightarrow> deleteOne (\<lambda>x. f x = f d) xs = remove1 d xs"
  by (induction xs) (auto simp: image_iff)

lemma remove1_key_gone:
  "distinct (map g xs) \<Longrightarrow> d \<in> set xs \<Longrightarrow> g d \<notin> set (map g (remove1 d xs))"
  by (induction xs) (auto simp: image_iff)

lemma find_updateOne:
  "find P xs = Some d \<Longrightarrow> P (f d) \<Longrightarrow> find P (updateOne P f xs) = Some (f d)"
  by (induction xs) (auto split: if_splits)

lemma map_updateOne: "(\<And>x. P x \<Longrightarrow> g (f x) = g x) \<Longrightarrow> map g (updateOne P f xs) = map g xs"
  by (induction xs) auto

lemma list_all_deleteOne: "list_all Q xs \<Longrightarrow> list_all Q (deleteOne P xs)"
  using set_deleteOne [of P xs] by (auto simp: list_all_iff)

lemma id_fresco: "list_all (\<lambda>x. f x < (n::nat)) xs \<Longrightarrow> n \<notin> f ` set xs"
  by (auto simp: list_all_iff)

lemma list_all_Suc: "list_all (\<lambda>x. f x < (n::nat)) xs \<Longrightarrow> list_all (\<lambda>x. f x < Suc n) xs"
  by (auto simp: list_all_iff less_Suc_eq)

lemma dropWhile_ninguno: "list_all (\<lambda>x. \<not> P x) xs \<Longrightarrow> dropWhile P xs = xs"
  by (cases xs) auto

lemma digito_no_espacio: "esDigito c \<Longrightarrow> \<not> esEspacio c"
  by (auto simp: esDigito_def esEspacio_def)

lemma recortar_digitos: "list_all esDigito c \<Longrightarrow> recortar c = c"
proof -
  assume "list_all esDigito c"
  then have a: "list_all (\<lambda>x. \<not> esEspacio x) c"
    by (auto simp: list_all_iff digito_no_espacio)
  then have b: "list_all (\<lambda>x. \<not> esEspacio x) (rev c)"
    by (simp add: list_all_iff)
  show ?thesis
    by (simp add: recortar_def dropWhile_ninguno [OF a] dropWhile_ninguno [OF b])
qed


lemma length_generarRefreshToken: "length (generarRefreshToken bytes) = 2 * length bytes"
  by (induction bytes) (simp_all add: generarRefreshToken_def)

lemma telefonoValido_no_vacio: "telefonoValido tel \<Longrightarrow> normalizarTelefono tel \<noteq> []"
  by (auto simp: telefonoValido_def telefonoRegex_def normalizarTelefono_def split: list.splits)

lemma extraerToken_Bearer:
  "extraerToken (''Bearer '' @ tk) = Some (takeWhile (\<lambda>c. c \<noteq> CHR '' '') tk)"
proof -
  have "\<exists>ws. split CHR '' '' s = takeWhile (\<lambda>c. c \<noteq> CHR '' '') s # ws" for s
    by (induction s) auto
  then obtain ws where "split CHR '' '' tk = takeWhile (\<lambda>c. c \<noteq> CHR '' '') tk # ws"
    by blast
  then show ?thesis by (simp add: extraerToken_def)
qed

lemma enviarRespuestaError_codigo:
  "exito (enviarRespuestaError msj cod errs st) = False \<and>
   codigo (enviarRespuestaError msj cod errs st) = Some cod"
  by (simp add: enviarRespuestaError_def)

lemma exito_error: "\<not> exito (enviarRespuestaError m c x s)"
  by (simp add: enviarRespuestaError_def)

lemma upsertCodigo_otros:
  "usuarios (upsertCodigo tel cod b) = usuarios b \<and>
   refreshTokens (upsertCodigo tel cod b) = refreshTokens b"
  by (simp add: upsertCodigo_def Let_def split: option.splits)

lemma upsertCodigo_find:
  "\<exists>d. findOne (\<lambda>d. cv_telefono d = normalizarTelefono tel) (codigos (upsertCodigo tel cod b)) = Some d \<and>
       cv_codigo d = recortar cod"
proof (cases "findOne (\<lambda>d. cv_telefono d = normalizarTelefono tel) (codigos b)")
  case None
  then show ?thesis
    by (simp add: upsertCodigo_def Let_def find_append_None)
next
  case (Some d)
  then show ?thesis
    by (simp add: upsertCodigo_def Let_def find_updateOne)
qed

section \<open>Well-formedness is kept by every controller\<close>

lemma bd_vacia_valida: "bd_valida bd_vacia"
  by (simp add: bd_valida_def bd_vacia_def)

lemma upsertCodigo_valida:
  assumes "bd_valida b"
  shows "bd_valida (upsertCodigo tel cod b)"
proof (cases "findOne (\<lambda>d. cv_telefono d = normalizarTelefono tel) (codigos b)")
  case None
  from find_None_map [OF None] assms show ?thesis
    by (auto simp: upsertCodigo_def Let_def None bd_valida_def list_all_iff)
next
  case (Some d)
  have a: "map cv_id (updateOne (\<lambda>d. cv_telefono d = normalizarTelefono tel)
             (\<lambda>d. d\<lparr>cv_telefono := normalizarTelefono tel, cv_codigo := recortar cod\<rparr>) (codigos b))
           = map cv_id (codigos b)"
    by (rule map_updateOne) simp
  have b: "map cv_telefono (updateOne (\<lambda>d. cv_telefono d = normalizarTelefono tel)
             (\<lambda>d. d\<lparr>cv_telefono := normalizarTelefono tel, cv_codigo := recortar cod\<rparr>) (codigos b))
           = map cv_telefono (codigos b)"
    by (rule map_updateOne) simp
  have c: "list_all (\<lambda>d. cv_id d < n) xs = (\<forall>i \<in> set (map cv_id xs). i < n)" for n and xs :: "codigoVerificacion list"
    by (auto simp: list_all_iff)
  from assms show ?thesis
    by (simp add: upsertCodigo_def Let_def Some bd_valida_def a b c)
qed

lemma borrar_codigo_valida:
  "bd_valida b \<Longrightarrow> bd_valida (b\<lparr>codigos := deleteOne P (codigos b)\<rparr>)"
  by (simp add: bd_valida_def distinct_map_deleteOne list_all_deleteOne)

lemma borrar_refreshToken_valida:
  "bd_valida b \<Longrightarrow> bd_valida (b\<lparr>refreshTokens := deleteOne P (refreshTokens b)\<rparr>)"
  by (simp add: bd_valida_def distinct_map_deleteOne list_all_deleteOne)

lemma guardarUsuario_valida:
  "bd_valida b \<Longrightarrow> guardarUsuario tel r b = Some (u, b1) \<Longrightarrow> bd_valida b1"
  by (auto simp: bd_valida_def guardarUsuario_def Let_def id_fresco list_all_Suc
      split: if_splits)

lemma crearRefreshToken_valida:
  "bd_valida b \<Longrightarrow> crearRefreshToken tk uid b = Some b1 \<Longrightarrow> bd_valida b1"
  by (auto simp: bd_valida_def crearRefreshToken_def id_fresco list_all_Suc
      split: if_splits)

lemma registrarUsuario_valida:
  "bd_valida b \<Longrightarrow> bd_valida (fst (snd (registrarUsuario codigoGenerado smsOk tel b)))"
  by (simp add: registrarUsuario_def enviarSMS_def Let_def upsertCodigo_valida)

lemma verificarUsuario_valida:
  "bd_valida b \<Longrightarrow> bd_valida (snd (verificarUsuario tel cod b))"
  by (simp add: verificarUsuario_def borrar_codigo_valida split: option.splits)

lemma loginUsuario_valida:
  assumes "bd_valida b"
  shows "bd_valida (snd (loginUsuario ent refreshTokenString tel cod b))"
  using assms
  by (auto simp: loginUsuario_def borrar_codigo_valida
      intro: guardarUsuario_valida crearRefreshToken_valida
      dest!: guardarUsuario_valida [rotated] crearRefreshToken_valida [rotated]
      split: option.splits)

lemma refrescarToken_valida:
  assumes "bd_valida b"
  shows "bd_valida (snd (refrescarToken ent nuevoRefreshToken refreshTk b))"
  using assms borrar_refreshToken_valida [OF assms]
  by (auto simp: refrescarToken_def Let_def
      dest!: crearRefreshToken_valida [rotated]
      split: option.splits)

lemma accesoMaestro_valida:
  assumes "bd_valida b"
  shows "bd_valida (snd (accesoMaestro ent refreshTk cod b))"
  using assms
  by (auto simp: accesoMaestro_def
      dest!: guardarUsuario_valida [rotated] crearRefreshToken_valida [rotated]
      split: option.splits)

section \<open>Evaluations in the concrete deployment\<close>

lemma normalizar_ejemplo:
  "normalizarTelefono ''+34600111222'' = ''+34600111222''"
  by (simp add: normalizarTelefono_def recortar_def esEspacio_def minuscula_def)


lemma normalizar_nbsp_ejemplo:
  "normalizarTelefono (CHR 0xA0 # ''+34600111222'') = ''+34600111222''"
  by (simp add: normalizarTelefono_def recortar_def esEspacio_def minuscula_def)

lemma generarRefreshToken_sorteados:
  "generarRefreshToken bytesSorteados =
     ''abababababababababababababababababababababababababababababababababababababababab''"
  by code_simp

lemma recortar_ejemplo: "recortar ''123456'' = ''123456''"
  by (simp add: recortar_def esEspacio_def)

lemma bdEjemplo_valida: "bd_valida bdEjemplo"
  by (simp add: bd_valida_def bdEjemplo_def)




section \<open>Login\<close>

text \<open>
  C10. A login whose credential fails changes nothing: when no verification code is
  stored for the phone, or the code stored for it (the one \<^verbatim>\<open>findOne\<close> returns) differs
  from the code sent, \<^verbatim>\<open>loginUsuario\<close> answers 400 with \<^verbatim>\<open>CODIGO_INVALIDO\<close> and leaves the
  users, the refresh tokens and the verification codes exactly as they were.
\<close>

theorem login_credencial_invalida:
  assumes "normalizarTelefono tel \<notin> set (map cv_telefono (codigos b)) \<or>
           (\<exists>d. findOne (\<lambda>d. cv_telefono d = normalizarTelefono tel) (codigos b) = Some d \<and>
                cv_codigo d \<noteq> cod)"
  shows "loginUsuario ent refreshTokenString tel cod b =
           (enviarRespuestaError ''Codigo invalido o expirado'' ''CODIGO_INVALIDO'' None None, b)"
proof (cases "findOne (\<lambda>d. cv_telefono d = normalizarTelefono tel) (codigos b)")
  case None
  then show ?thesis by (simp add: loginUsuario_def)
next
  case (Some d)
  then have "normalizarTelefono tel \<in> set (map cv_telefono (codigos b))"
    using find_Some_mem [OF Some] by force
  with assms Some have "cv_codigo d \<noteq> cod" by auto
  with Some show ?thesis by (simp add: loginUsuario_def)
qed

theorem login_credencial_invalida_witness:
  "loginUsuario entEjemplo ''bbbb'' ''+34600111222'' ''000000'' bdEjemplo =
     (enviarRespuestaError ''Codigo invalido o expirado'' ''CODIGO_INVALIDO'' None None,
      bdEjemplo)"
proof -
  have "\<exists>d. findOne (\<lambda>d. cv_telefono d = normalizarTelefono ''+34600111222'')
               (codigos bdEjemplo) = Some d \<and> cv_codigo d \<noteq> ''000000''"
    by (simp add: normalizar_ejemplo bdEjemplo_def)
  then show ?thesis
    using login_credencial_invalida
      [of "''+34600111222''" bdEjemplo "''000000''" entEjemplo "''bbbb''"]
    by simp
qed

text \<open>
  C3. A login with the code stored for a phone that is not blank, as every phone is that
  \<^verbatim>\<open>loginSchema\<close> accepts, adds exactly one user, with that phone, when no user has the
  phone, and leaves the users as they were when one has it. In both cases the whole
  result is given: the login succeeds unless the refresh token cannot be stored (it is
  empty or stored already), and on success the payload and the new refresh token carry
  the id of the user added, or of the user found, who is reused as stored.
\<close>

theorem login_identidades:
  assumes "normalizarTelefono tel \<noteq> []"
    and "findOne (\<lambda>d. cv_telefono d = normalizarTelefono tel) (codigos b) = Some d"
    and "cv_codigo d = cod"
  shows "(normalizarTelefono tel \<notin> set (map telefono (usuarios b)) \<longrightarrow>
            usuarios (snd (loginUsuario ent refreshTokenString tel cod b)) =
              usuarios b @ [\<lparr>u_id = proximoId b, telefono = normalizarTelefono tel,
                              estaVerificado = False, rol = RolUsuario\<rparr>] \<and>
            loginUsuario ent refreshTokenString tel cod b =
              (if refreshTokenString = [] \<or>
                  refreshTokenString \<in> set (map token (refreshTokens b))
               then (enviarRespuestaError ''Error interno del servidor'' ''ERROR_LOGIN''
                       None None,
                     b\<lparr>usuarios := usuarios b @
                          [\<lparr>u_id = proximoId b, telefono = normalizarTelefono tel,
                            estaVerificado = False, rol = RolUsuario\<rparr>],
                       proximoId := Suc (proximoId b)\<rparr>)
               else (enviarRespuestaExitosa ''Login exitoso''
                       (DatosLogin
                          (jwt_sign ent \<lparr>p_usuarioId = proximoId b,
                                          p_telefono = normalizarTelefono tel\<rparr>)
                          refreshTokenString (proximoId b) (normalizarTelefono tel)) None,
                     b\<lparr>usuarios := usuarios b @
                          [\<lparr>u_id = proximoId b, telefono = normalizarTelefono tel,
                            estaVerificado = False, rol = RolUsuario\<rparr>],
                       refreshTokens := refreshTokens b @
                          [\<lparr>rt_id = Suc (proximoId b), token = refreshTokenString,
                            usuarioId = proximoId b\<rparr>],
                       proximoId := Suc (Suc (proximoId b)),
                       codigos := deleteOne (\<lambda>d. cv_telefono d = normalizarTelefono tel)
                                    (codigos b)\<rparr>))) \<and>
         (normalizarTelefono tel \<in> set (map telefono (usuarios b)) \<longrightarrow>
            usuarios (snd (loginUsuario ent refreshTokenString tel cod b)) = usuarios b \<and>
            (\<exists>u. findOne (\<lambda>u. telefono u = normalizarTelefono tel) (usuarios b) = Some u)) \<and>
         (\<forall>u. findOne (\<lambda>u. telefono u = normalizarTelefono tel) (usuarios b) = Some u \<longrightarrow>
            loginUsuario ent refreshTokenString tel cod b =
              (if refreshTokenString = [] \<or>
                  refreshTokenString \<in> set (map token (refreshTokens b))
               then (enviarRespuestaError ''Error interno del servidor'' ''ERROR_LOGIN''
                       None None, b)
               else (enviarRespuestaExitosa ''Login exitoso''
                       (DatosLogin
                          (jwt_sign ent \<lparr>p_usuarioId = u_id u, p_telefono = telefono u\<rparr>)
                          refreshTokenString (u_id u) (telefono u)) None,
                     b\<lparr>refreshTokens := refreshTokens b @
                          [\<lparr>rt_id = proximoId b, token = refreshTokenString,
                            usuarioId = u_id u\<rparr>],
                       proximoId := Suc (proximoId b),
                       codigos := deleteOne (\<lambda>d. cv_telefono d = normalizarTelefono tel)
                                    (codigos b)\<rparr>))) \<and>
         (\<forall>u. findOne (\<lambda>u. telefono u = normalizarTelefono tel) (usuarios b) = Some u \<and>
              exito (fst (loginUsuario ent refreshTokenString tel cod b)) \<longrightarrow>
              Option.bind (datos (fst (loginUsuario ent refreshTokenString tel cod b)))
                datos_usuario_id = Some (u_id u))"
proof (intro conjI impI allI)
  assume n: "normalizarTelefono tel \<notin> set (map telefono (usuarios b))"
  have f: "findOne (\<lambda>u. telefono u = normalizarTelefono tel) (usuarios b) = None"
    using n by (rule find_None_key)
  have g: "guardarUsuario tel RolUsuario b =
             Some (\<lparr>u_id = proximoId b, telefono = normalizarTelefono tel,
                     estaVerificado = False, rol = RolUsuario\<rparr>,
                   b\<lparr>usuarios := usuarios b @ [\<lparr>u_id = proximoId b,
                          telefono = normalizarTelefono tel, estaVerificado = False,
                          rol = RolUsuario\<rparr>],
                     proximoId := Suc (proximoId b)\<rparr>)"
    using n assms(1) by (simp add: guardarUsuario_def Let_def)
  show "usuarios (snd (loginUsuario ent refreshTokenString tel cod b)) =
          usuarios b @ [\<lparr>u_id = proximoId b, telefono = normalizarTelefono tel,
                          estaVerificado = False, rol = RolUsuario\<rparr>]"
    using assms(2,3)
    by (simp add: loginUsuario_def f g crearRefreshToken_def)
  show "loginUsuario ent refreshTokenString tel cod b =
              (if refreshTokenString = [] \<or>
                  refreshTokenString \<in> set (map token (refreshTokens b))
               then (enviarRespuestaError ''Error interno del servidor'' ''ERROR_LOGIN''
                       None None,
                     b\<lparr>usuarios := usuarios b @
                          [\<lparr>u_id = proximoId b, telefono = normalizarTelefono tel,
                            estaVerificado = False, rol = RolUsuario\<rparr>],
                       proximoId := Suc (proximoId b)\<rparr>)
               else (enviarRespuestaExitosa ''Login exitoso''
                       (DatosLogin
                          (jwt_sign ent \<lparr>p_usuarioId = proximoId b,
                                          p_telefono = normalizarTelefono tel\<rparr>)
                          refreshTokenString (proximoId b) (normalizarTelefono tel)) None,
                     b\<lparr>usuarios := usuarios b @
                          [\<lparr>u_id = proximoId b, telefono = normalizarTelefono tel,
                            estaVerificado = False, rol = RolUsuario\<rparr>],
                       refreshTokens := refreshTokens b @
                          [\<lparr>rt_id = Suc (proximoId b), token = refreshTokenString,
                            usuarioId = proximoId b\<rparr>],
                       proximoId := Suc (Suc (proximoId b)),
                       codigos := deleteOne (\<lambda>d. cv_telefono d = normalizarTelefono tel)
                                    (codigos b)\<rparr>))"
    using assms(2,3)
    by (simp add: loginUsuario_def f g crearRefreshToken_def)
next
  assume "normalizarTelefono tel \<in> set (map telefono (usuarios b))"
  then obtain u where u: "findOne (\<lambda>u. telefono u = normalizarTelefono tel) (usuarios b) = Some u"
    using find_Some_key [of "normalizarTelefono tel" telefono "usuarios b"] by auto
  then show "usuarios (snd (loginUsuario ent refreshTokenString tel cod b)) = usuarios b"
    using assms(2,3)
    by (simp add: loginUsuario_def crearRefreshToken_def)
  from u show "\<exists>u. findOne (\<lambda>u. telefono u = normalizarTelefono tel) (usuarios b) = Some u"
    by blast
next
  fix u
  assume "findOne (\<lambda>u. telefono u = normalizarTelefono tel) (usuarios b) = Some u"
  then show "loginUsuario ent refreshTokenString tel cod b =
              (if refreshTokenString = [] \<or>
                  refreshTokenString \<in> set (map token (refreshTokens b))
               then (enviarRespuestaError ''Error interno del servidor'' ''ERROR_LOGIN''
                       None None, b)
               else (enviarRespuestaExitosa ''Login exitoso''
                       (DatosLogin
                          (jwt_sign ent \<lparr>p_usuarioId = u_id u, p_telefono = telefono u\<rparr>)
                          refreshTokenString (u_id u) (telefono u)) None,
                     b\<lparr>refreshTokens := refreshTokens b @
                          [\<lparr>rt_id = proximoId b, token = refreshTokenString,
                            usuarioId = u_id u\<rparr>],
                       proximoId := Suc (proximoId b),
                       codigos := deleteOne (\<lambda>d. cv_telefono d = normalizarTelefono tel)
                                    (codigos b)\<rparr>))"
    using assms(2,3)
    by (simp add: loginUsuario_def crearRefreshToken_def)
next
  fix u
  assume "findOne (\<lambda>u. telefono u = normalizarTelefono tel) (usuarios b) = Some u \<and>
          exito (fst (loginUsuario ent refreshTokenString tel cod b))"
  then show "Option.bind (datos (fst (loginUsuario ent refreshTokenString tel cod b)))
               datos_usuario_id = Some (u_id u)"
    using assms(2,3)
    by (auto simp: loginUsuario_def crearRefreshToken_def exito_error
        enviarRespuestaExitosa_def split: if_splits)
qed

theorem login_identidades_witness:
  "loginUsuario entEjemplo ''bbbb'' (CHR 0xA0 # ''+34600111222'') ''482913'' bdEjemplo =
     (enviarRespuestaExitosa ''Login exitoso''
        (DatosLogin ''jwt.+34600111222'' ''bbbb'' 1 ''+34600111222'') None,
      bdEjemplo
        \<lparr>refreshTokens := [\<lparr>rt_id = 3, token = ''aaaa'', usuarioId = 1\<rparr>,
                            \<lparr>rt_id = 4, token = ''bbbb'', usuarioId = 1\<rparr>],
         proximoId := 5, codigos := []\<rparr>) \<and>
   loginUsuario entEjemplo ''bbbb'' ''+34600111222'' ''482913'' (bdEjemplo\<lparr>usuarios := []\<rparr>) =
     (enviarRespuestaExitosa ''Login exitoso''
        (DatosLogin ''jwt.+34600111222'' ''bbbb'' 4 ''+34600111222'') None,
      bdEjemplo
        \<lparr>usuarios := [\<lparr>u_id = 4, telefono = ''+34600111222'', estaVerificado = False,
                        rol = RolUsuario\<rparr>],
         refreshTokens := [\<lparr>rt_id = 3, token = ''aaaa'', usuarioId = 1\<rparr>,
                            \<lparr>rt_id = 5, token = ''bbbb'', usuarioId = 4\<rparr>],
         proximoId := 6, codigos := []\<rparr>)"
proof -
  have n1: "normalizarTelefono (CHR 0xA0 # ''+34600111222'') \<noteq> []"
    by (simp add: normalizar_nbsp_ejemplo)
  have n2: "normalizarTelefono ''+34600111222'' \<noteq> []"
    by (simp add: normalizar_ejemplo)
  have f1: "findOne (\<lambda>d. cv_telefono d = normalizarTelefono (CHR 0xA0 # ''+34600111222''))
              (codigos bdEjemplo) =
            Some \<lparr>cv_id = 2, cv_telefono = ''+34600111222'', cv_codigo = ''482913''\<rparr>"
    by (simp add: normalizar_nbsp_ejemplo bdEjemplo_def)
  have f2: "findOne (\<lambda>d. cv_telefono d = normalizarTelefono ''+34600111222'')
              (codigos (bdEjemplo\<lparr>usuarios := []\<rparr>)) =
            Some \<lparr>cv_id = 2, cv_telefono = ''+34600111222'', cv_codigo = ''482913''\<rparr>"
    by (simp add: normalizar_ejemplo bdEjemplo_def)
  have c: "cv_codigo \<lparr>cv_id = 2, cv_telefono = ''+34600111222'', cv_codigo = ''482913''\<rparr> =
             ''482913''"
    by simp
  have u: "findOne (\<lambda>u. telefono u = normalizarTelefono (CHR 0xA0 # ''+34600111222''))
             (usuarios bdEjemplo) =
           Some \<lparr>u_id = 1, telefono = ''+34600111222'', estaVerificado = False,
                  rol = RolUsuario\<rparr>"
    by (simp add: normalizar_nbsp_ejemplo bdEjemplo_def)
  have a: "loginUsuario entEjemplo ''bbbb'' (CHR 0xA0 # ''+34600111222'') ''482913'' bdEjemplo =
     (enviarRespuestaExitosa ''Login exitoso''
        (DatosLogin ''jwt.+34600111222'' ''bbbb'' 1 ''+34600111222'') None,
      bdEjemplo
        \<lparr>refreshTokens := [\<lparr>rt_id = 3, token = ''aaaa'', usuarioId = 1\<rparr>,
                            \<lparr>rt_id = 4, token = ''bbbb'', usuarioId = 1\<rparr>],
         proximoId := 5, codigos := []\<rparr>)"
    using login_identidades [OF n1 f1 c, of entEjemplo "''bbbb''"] u
    by (simp add: normalizar_nbsp_ejemplo bdEjemplo_def entEjemplo_def)
  have b: "loginUsuario entEjemplo ''bbbb'' ''+34600111222'' ''482913''
             (bdEjemplo\<lparr>usuarios := []\<rparr>) =
     (enviarRespuestaExitosa ''Login exitoso''
        (DatosLogin ''jwt.+34600111222'' ''bbbb'' 4 ''+34600111222'') None,
      bdEjemplo
        \<lparr>usuarios := [\<lparr>u_id = 4, telefono = ''+34600111222'', estaVerificado = False,
                        rol = RolUsuario\<rparr>],
         refreshTokens := [\<lparr>rt_id = 3, token = ''aaaa'', usuarioId = 1\<rparr>,
                            \<lparr>rt_id = 5, token = ''bbbb'', usuarioId = 4\<rparr>],
         proximoId := 6, codigos := []\<rparr>)"
    using login_identidades [OF n2 f2 c, of entEjemplo "''bbbb''"]
    by (simp add: normalizar_ejemplo bdEjemplo_def entEjemplo_def)
  from a b show ?thesis by simp
qed

section \<open>Registration and verification\<close>

text \<open>
  C4. \<^verbatim>\<open>registrarUsuario\<close> calls \<^verbatim>\<open>enviarSMS\<close> exactly once, whether the provider accepts
  the message or not, and the collections that the call sees already hold the generated
  code for the phone: the upsert has been done. The code is stored as the schema's trim
  leaves it, which is the code itself when it is a string of digits, as
  \<^verbatim>\<open>generarCodigo()\<close> returns. When the send fails the answer is
  \<^verbatim>\<open>ERROR_REGISTRO_USUARIO\<close> and the code stays stored.
\<close>

theorem registro_persiste_antes_de_enviar:
  "\<exists>i d.
     registrarUsuario codigoGenerado smsOk tel b =
       (if smsOk then enviarRespuestaExitosa ''Codigo enviado correctamente'' DatosNull None
        else enviarRespuestaError ''Error interno del servidor'' ''ERROR_REGISTRO_USUARIO''
               None None,
        almacen i, [i]) \<and>
     destinatario i = tel \<and> cuerpo i = mensajeSMS codigoGenerado \<and>
     almacen i = upsertCodigo tel codigoGenerado b \<and>
     findOne (\<lambda>d. cv_telefono d = normalizarTelefono tel) (codigos (almacen i)) = Some d \<and>
     cv_codigo d = recortar codigoGenerado \<and>
     (list_all esDigito codigoGenerado \<longrightarrow> cv_codigo d = codigoGenerado)"
proof -
  obtain d where
    "findOne (\<lambda>d. cv_telefono d = normalizarTelefono tel)
       (codigos (upsertCodigo tel codigoGenerado b)) = Some d"
    "cv_codigo d = recortar codigoGenerado"
    using upsertCodigo_find by blast
  then show ?thesis
    by (simp add: registrarUsuario_def enviarSMS_def recortar_digitos)
qed

theorem registro_persiste_antes_de_enviar_witness:
  "\<exists>i d.
     registrarUsuario ''123456'' False ''+34600111333'' bdEjemplo =
       (enviarRespuestaError ''Error interno del servidor'' ''ERROR_REGISTRO_USUARIO''
          None None, almacen i, [i]) \<and>
     destinatario i = ''+34600111333'' \<and> cuerpo i = mensajeSMS ''123456'' \<and>
     almacen i = upsertCodigo ''+34600111333'' ''123456'' bdEjemplo \<and>
     findOne (\<lambda>d. cv_telefono d = normalizarTelefono ''+34600111333'') (codigos (almacen i)) =
       Some d \<and>
     cv_codigo d = ''123456''"
proof -
  have "list_all esDigito ''123456''" by (simp add: esDigito_def)
  then show ?thesis
    using registro_persiste_antes_de_enviar
      [of "''123456''" False "''+34600111333''" bdEjemplo]
    by (simp add: recortar_ejemplo)
qed

text \<open>
  C5. After \<^verbatim>\<open>registrarUsuario\<close> has stored a code for a phone in well-formed
  collections, \<^verbatim>\<open>verificarUsuario\<close> with that phone and code succeeds and deletes the
  row, so that no code is left for the phone, and the same call on the resulting
  collections answers \<^verbatim>\<open>CODIGO_INVALIDO_O_EXPIRADO\<close> and changes nothing.
\<close>

theorem verificar_un_solo_uso:
  assumes "bd_valida b"
    and "registrarUsuario c smsOk p b = (r0, b1, sms)"
  shows "\<exists>d. findOne (\<lambda>d. cv_telefono d = normalizarTelefono p) (codigos b1) = Some d \<and>
             cv_codigo d = recortar c \<and>
             verificarUsuario p c b1 =
               (enviarRespuestaExitosa ''Codigo verificado correctamente'' DatosNull None,
                b1\<lparr>codigos := remove1 d (codigos b1)\<rparr>) \<and>
             normalizarTelefono p \<notin> set (map cv_telefono (remove1 d (codigos b1))) \<and>
             verificarUsuario p c (b1\<lparr>codigos := remove1 d (codigos b1)\<rparr>) =
               (enviarRespuestaError ''Codigo incorrecto o expirado''
                  ''CODIGO_INVALIDO_O_EXPIRADO'' None None,
                b1\<lparr>codigos := remove1 d (codigos b1)\<rparr>)"
proof -
  from assms(2) have b1: "b1 = upsertCodigo p c b"
    by (auto simp: registrarUsuario_def enviarSMS_def Let_def split: if_splits)
  with assms(1) have v: "bd_valida b1" by (simp add: upsertCodigo_valida)
  obtain d where d: "findOne (\<lambda>d. cv_telefono d = normalizarTelefono p) (codigos b1) = Some d"
      and cd: "cv_codigo d = recortar c"
    using upsertCodigo_find b1 by blast
  from find_Some_mem [OF d] have mem: "d \<in> set (codigos b1)"
      and td: "cv_telefono d = normalizarTelefono p" by auto
  have f1: "findOne (\<lambda>d. cv_telefono d = normalizarTelefono p \<and> cv_codigo d = recortar c)
              (codigos b1) = Some d"
    using find_conj [OF d, of "\<lambda>d. cv_codigo d = recortar c"] cd by simp
  have del: "deleteOne (\<lambda>x. cv_id x = cv_id d) (codigos b1) = remove1 d (codigos b1)"
    using mem v by (simp add: deleteOne_remove1 bd_valida_def)
  have gone: "normalizarTelefono p \<notin> set (map cv_telefono (remove1 d (codigos b1)))"
    using remove1_key_gone [of cv_telefono "codigos b1" d] mem v td
    by (simp add: bd_valida_def)
  have f2: "findOne (\<lambda>d. cv_telefono d = normalizarTelefono p \<and> cv_codigo d = recortar c)
              (remove1 d (codigos b1)) = None"
    using gone by (rule find_None_notin)
  show ?thesis
    using d cd gone by (simp add: verificarUsuario_def f1 f2 del)
qed

theorem verificar_un_solo_uso_witness:
  "\<exists>d. findOne (\<lambda>d. cv_telefono d = normalizarTelefono ''+34600111333'')
           (codigos (upsertCodigo ''+34600111333'' ''123456'' bdEjemplo)) = Some d \<and>
       cv_codigo d = recortar ''123456'' \<and>
       verificarUsuario ''+34600111333'' ''123456''
           (upsertCodigo ''+34600111333'' ''123456'' bdEjemplo) =
         (enviarRespuestaExitosa ''Codigo verificado correctamente'' DatosNull None,
          (upsertCodigo ''+34600111333'' ''123456'' bdEjemplo)
            \<lparr>codigos := remove1 d (codigos (upsertCodigo ''+34600111333'' ''123456'' bdEjemplo))\<rparr>) \<and>
       normalizarTelefono ''+34600111333'' \<notin>
         set (map cv_telefono
                (remove1 d (codigos (upsertCodigo ''+34600111333'' ''123456'' bdEjemplo)))) \<and>
       verificarUsuario ''+34600111333'' ''123456''
           ((upsertCodigo ''+34600111333'' ''123456'' bdEjemplo)
              \<lparr>codigos := remove1 d (codigos (upsertCodigo ''+34600111333'' ''123456'' bdEjemplo))\<rparr>) =
         (enviarRespuestaError ''Codigo incorrecto o expirado''
            ''CODIGO_INVALIDO_O_EXPIRADO'' None None,
          (upsertCodigo ''+34600111333'' ''123456'' bdEjemplo)
            \<lparr>codigos := remove1 d (codigos (upsertCodigo ''+34600111333'' ''123456'' bdEjemplo))\<rparr>)"
proof -
  have r: "registrarUsuario ''123456'' True ''+34600111333'' bdEjemplo =
             (enviarRespuestaExitosa ''Codigo enviado correctamente'' DatosNull None,
              upsertCodigo ''+34600111333'' ''123456'' bdEjemplo,
              [\<lparr>destinatario = ''+34600111333'', cuerpo = mensajeSMS ''123456'',
                 almacen = upsertCodigo ''+34600111333'' ''123456'' bdEjemplo\<rparr>])"
    by (simp add: registrarUsuario_def enviarSMS_def)
  show ?thesis
    using verificar_un_solo_uso [OF bdEjemplo_valida r] .
qed

text \<open>
  C6. \<^verbatim>\<open>verificarUsuario\<close> leaves the users and the refresh tokens as they were; its
  answer and the codes it leaves are the same whatever the users are; and the
  collections it leaves are the ones it was given, less the matched code when there is
  one.
\<close>

theorem verificar_no_toca_usuarios:
  "usuarios (snd (verificarUsuario tel cod b)) = usuarios b \<and>
   refreshTokens (snd (verificarUsuario tel cod b)) = refreshTokens b \<and>
   fst (verificarUsuario tel cod (b\<lparr>usuarios := us\<rparr>)) = fst (verificarUsuario tel cod b) \<and>
   snd (verificarUsuario tel cod (b\<lparr>usuarios := us\<rparr>)) =
     (snd (verificarUsuario tel cod b))\<lparr>usuarios := us\<rparr> \<and>
   snd (verificarUsuario tel cod b) =
     (case findOne (\<lambda>d. cv_telefono d = normalizarTelefono tel \<and> cv_codigo d = recortar cod)
             (codigos b) of
        None \<Rightarrow> b
      | Some d \<Rightarrow> b\<lparr>codigos := deleteOne (\<lambda>x. cv_id x = cv_id d) (codigos b)\<rparr>)"
  by (simp add: verificarUsuario_def split: option.splits)

theorem verificar_no_toca_usuarios_witness:
  "usuarios (snd (verificarUsuario ''+34600111222'' ''482913'' bdEjemplo)) =
     usuarios bdEjemplo \<and>
   refreshTokens (snd (verificarUsuario ''+34600111222'' ''482913'' bdEjemplo)) =
     refreshTokens bdEjemplo \<and>
   fst (verificarUsuario ''+34600111222'' ''482913'' (bdEjemplo\<lparr>usuarios := []\<rparr>)) =
     fst (verificarUsuario ''+34600111222'' ''482913'' bdEjemplo) \<and>
   codigos (snd (verificarUsuario ''+34600111222'' ''482913'' bdEjemplo)) = [] \<and>
   snd (verificarUsuario (CHR 0xA0 # ''+34600111222'') ''482913'' bdEjemplo) =
     bdEjemplo\<lparr>codigos := []\<rparr>"
  using verificar_no_toca_usuarios [of "''+34600111222''" "''482913''" bdEjemplo "[]"]
    verificar_no_toca_usuarios [of "CHR 0xA0 # ''+34600111222''" "''482913''" bdEjemplo "[]"]
  by (simp add: normalizar_ejemplo normalizar_nbsp_ejemplo recortar_def esEspacio_def
      bdEjemplo_def)

section \<open>Refresh-token rotation\<close>




section \<open>Master access\<close>














section \<open>Access guard\<close>

text \<open>
  C9. On \<^verbatim>\<open>GET /api/admin/test\<close> the answer is 401 when the Authorization header is
  missing, when it does not start with \<^verbatim>\<open>Bearer \<close>, when the token does not verify,
  and when the verified token names a user that is not stored; it is 403 when the user
  found has a role other than admin; and the handler's answer is given exactly when the
  header starts with \<^verbatim>\<open>Bearer \<close> and the token verifies and names a stored user with
  role admin.
\<close>

theorem guardia_admin:
  "(authorization req = None \<longrightarrow> status (rutaAdminTest ent b req) = 401) \<and>
   (\<forall>h. authorization req = Some h \<and> \<not> prefix ''Bearer '' h \<longrightarrow>
        status (rutaAdminTest ent b req) = 401) \<and>
   (\<forall>h. authorization req = Some h \<and> prefix ''Bearer '' h \<and>
        Option.bind (extraerToken h) (jwt_verify ent) = None \<longrightarrow>
        status (rutaAdminTest ent b req) = 401) \<and>
   (\<forall>h p. authorization req = Some h \<and> prefix ''Bearer '' h \<and>
        Option.bind (extraerToken h) (jwt_verify ent) = Some p \<and>
        findOne (\<lambda>u. u_id u = p_usuarioId p) (usuarios b) = None \<longrightarrow>
        status (rutaAdminTest ent b req) = 401) \<and>
   (\<forall>h p u. authorization req = Some h \<and> prefix ''Bearer '' h \<and>
        Option.bind (extraerToken h) (jwt_verify ent) = Some p \<and>
        findOne (\<lambda>u. u_id u = p_usuarioId p) (usuarios b) = Some u \<and> rol u \<noteq> RolAdmin \<longrightarrow>
        status (rutaAdminTest ent b req) = 403) \<and>
   (rutaAdminTest ent b req = adminTest \<longleftrightarrow>
      (\<exists>h p u. authorization req = Some h \<and> prefix ''Bearer '' h \<and>
        Option.bind (extraerToken h) (jwt_verify ent) = Some p \<and>
        findOne (\<lambda>u. u_id u = p_usuarioId p) (usuarios b) = Some u \<and> rol u = RolAdmin))"
proof -
  have e: "enviarRespuestaError m c x s \<noteq> adminTest" for m c x s
    by (simp add: enviarRespuestaError_def adminTest_def)
  have s: "status (enviarRespuestaError m c x (Some n)) = n" for m c x n
    by (simp add: enviarRespuestaError_def)
  show ?thesis
  proof (cases "authorization req")
    case None
    then show ?thesis by (simp add: rutaAdminTest_def autenticarJWT_def e s)
  next
    case (Some h)
    show ?thesis
    proof (cases "prefix ''Bearer '' h")
      case False
      with Some show ?thesis by (simp add: rutaAdminTest_def autenticarJWT_def e s)
    next
      case True
      then have ne: "h \<noteq> []" by auto
      show ?thesis
      proof (cases "Option.bind (extraerToken h) (jwt_verify ent)")
        case None
        with Some True ne show ?thesis by (simp add: rutaAdminTest_def autenticarJWT_def e s)
      next
        case p: (Some p)
        show ?thesis
        proof (cases "findOne (\<lambda>u. u_id u = p_usuarioId p) (usuarios b)")
          case None
          with Some True ne p show ?thesis
            by (simp add: rutaAdminTest_def autenticarJWT_def e s)
        next
          case u: (Some u)
          with Some True ne p show ?thesis
            by (simp add: rutaAdminTest_def autenticarJWT_def esAdmin_def e s)
        qed
      qed
    qed
  qed
qed

theorem guardia_admin_witness:
  "status (rutaAdminTest entEjemplo bdEjemplo \<lparr>authorization = None, req_usuario = None\<rparr>) = 401 \<and>
   status (rutaAdminTest entEjemplo bdEjemplo
             \<lparr>authorization = Some ''Basic abc'', req_usuario = None\<rparr>) = 401 \<and>
   status (rutaAdminTest entEjemplo bdEjemplo
             \<lparr>authorization = Some ''Bearer basura'', req_usuario = None\<rparr>) = 401 \<and>
   status (rutaAdminTest entEjemplo bdEjemplo
             \<lparr>authorization = Some ''Bearer jwt.+34600999999'', req_usuario = None\<rparr>) = 401 \<and>
   status (rutaAdminTest entEjemplo bdEjemplo
             \<lparr>authorization = Some ''Bearer jwt.+34600111222'', req_usuario = None\<rparr>) = 403 \<and>
   rutaAdminTest entEjemplo bdEjemplo
     \<lparr>authorization = Some ''Bearer jwt.+34600000000'', req_usuario = None\<rparr> = adminTest"
proof -
  have x: "extraerToken ''Bearer basura'' = Some ''basura''"
      "extraerToken ''Bearer jwt.+34600999999'' = Some ''jwt.+34600999999''"
      "extraerToken ''Bearer jwt.+34600111222'' = Some ''jwt.+34600111222''"
      "extraerToken ''Bearer jwt.+34600000000'' = Some ''jwt.+34600000000''"
    using extraerToken_Bearer [of "''basura''"] extraerToken_Bearer [of "''jwt.+34600999999''"]
      extraerToken_Bearer [of "''jwt.+34600111222''"] extraerToken_Bearer [of "''jwt.+34600000000''"]
    by simp_all
  show ?thesis
    using
      guardia_admin [of "\<lparr>authorization = None, req_usuario = None\<rparr>" entEjemplo bdEjemplo]
      guardia_admin [of "\<lparr>authorization = Some ''Basic abc'', req_usuario = None\<rparr>"
        entEjemplo bdEjemplo]
      guardia_admin [of "\<lparr>authorization = Some ''Bearer basura'', req_usuario = None\<rparr>"
        entEjemplo bdEjemplo]
      guardia_admin [of "\<lparr>authorization = Some ''Bearer jwt.+34600999999'', req_usuario = None\<rparr>"
        entEjemplo bdEjemplo]
      guardia_admin [of "\<lparr>authorization = Some ''Bearer jwt.+34600111222'', req_usuario = None\<rparr>"
        entEjemplo bdEjemplo]
      guardia_admin [of "\<lparr>authorization = Some ''Bearer jwt.+34600000000'', req_usuario = None\<rparr>"
        entEjemplo bdEjemplo]
    by (simp add: x entEjemplo_def bdEjemplo_def)
qed

section \<open>Responses without an error code\<close>

lemma controladores_con_codigo:
  "\<not> exito (fst (registrarUsuario codigoGenerado smsOk tel b)) \<Longrightarrow>
     codigo (fst (registrarUsuario codigoGenerado smsOk tel b)) \<noteq> None"
  "\<not> exito (fst (verificarUsuario tel cod b)) \<Longrightarrow>
     codigo (fst (verificarUsuario tel cod b)) \<noteq> None"
  "\<not> exito (fst (loginUsuario ent tk tel cod b)) \<Longrightarrow>
     codigo (fst (loginUsuario ent tk tel cod b)) \<noteq> None"
  "\<not> exito (fst (refrescarToken ent tk refreshTk b)) \<Longrightarrow>
     codigo (fst (refrescarToken ent tk refreshTk b)) \<noteq> None"
  "\<not> exito (fst (accesoMaestro ent tk cod b)) \<Longrightarrow>
     codigo (fst (accesoMaestro ent tk cod b)) \<noteq> None"
  "\<not> exito (rutaAdminTest ent b req) \<Longrightarrow> codigo (rutaAdminTest ent b req) \<noteq> None"
  by (auto simp: registrarUsuario_def enviarSMS_def verificarUsuario_def loginUsuario_def
      refrescarToken_def accesoMaestro_def rutaAdminTest_def autenticarJWT_def esAdmin_def
      adminTest_def enviarRespuestaError_def enviarRespuestaExitosa_def Let_def
      split: option.splits if_splits sum.splits)

text \<open>
  C8. The answer to a route that no router matched, and every answer of the global error
  middleware, has \<^verbatim>\<open>exito: false\<close> and no \<^verbatim>\<open>codigo\<close> key, against the rule that
  \<^verbatim>\<open>enviarRespuestaError\<close> implements for every other failure.
\<close>

theorem ruta_no_encontrada_sin_codigo:
  "status rutaNoEncontrada = 404 \<and> exito rutaNoEncontrada = False \<and>
   codigo rutaNoEncontrada = None \<and>
   exito (manejadorErrores err) = False \<and> codigo (manejadorErrores err) = None"
  by (simp add: rutaNoEncontrada_def manejadorErrores_def)

end
